theory Spec2Isabelle
  imports Main "HOL-Library.Word"
begin

section \<open>JavaScript strings\<close>

text \<open>
  A JavaScript string is a sequence of UTF-16 code units. The sources contain the
  code unit U+2014 (an em dash) in string literals, and \<^verbatim>\<open>String.prototype.trim\<close>
  removes code units beyond Latin-1, so a string is a list of 16-bit words rather than
  a list of 8-bit \<^typ>\<open>char\<close>. \<open>str\<close> embeds an ASCII literal.
\<close>

type_synonym js_string = "16 word list"

definition str :: "string \<Rightarrow> js_string" where
  "str s = map of_char s"

text \<open>
  \<^verbatim>\<open>WhiteSpace\<close> and \<^verbatim>\<open>LineTerminator\<close> of ECMAScript: TAB, LF, VT, FF, CR, SP, NBSP,
  the Unicode space separators, LS, PS and the byte order mark.
\<close>

definition isWhiteSpace :: "16 word \<Rightarrow> bool" where
  "isWhiteSpace c \<longleftrightarrow>
     c \<in> {0x09, 0x0A, 0x0B, 0x0C, 0x0D, 0x20, 0xA0, 0x1680, 0x2028, 0x2029,
          0x202F, 0x205F, 0x3000, 0xFEFF}
     \<or> (0x2000 \<le> c \<and> c \<le> 0x200A)"

text \<open>\<^verbatim>\<open>s.trim()\<close>: white space is removed from both ends, nothing else changes.\<close>

definition trim :: "js_string \<Rightarrow> js_string" where
  "trim s = rev (dropWhile isWhiteSpace (rev (dropWhile isWhiteSpace s)))"

text \<open>\<^verbatim>\<open>a.includes(c)\<close> for a search string \<open>c\<close> of one code unit.\<close>

definition includes_js :: "js_string \<Rightarrow> 16 word \<Rightarrow> bool" where
  "includes_js a c \<longleftrightarrow> c \<in> set a"

text \<open>\<^verbatim>\<open>xs.join(sep)\<close>\<close>

fun join :: "js_string \<Rightarrow> js_string list \<Rightarrow> js_string" where
  "join sep [] = []"
| "join sep [x] = x"
| "join sep (x # y # ys) = x @ sep @ join sep (y # ys)"

text \<open>\<^verbatim>\<open>s || d\<close> on strings: the empty string is the only falsy one.\<close>

definition or_else :: "js_string \<Rightarrow> js_string \<Rightarrow> js_string" where
  "or_else s d = (if s = [] then d else s)"

abbreviation (input) dash :: js_string where
  "dash \<equiv> [0x2014]"

abbreviation (input) dquote :: js_string where
  "dquote \<equiv> [0x22]"

abbreviation (input) newline :: js_string where
  "newline \<equiv> [0x0A]"

section \<open>steps.ts: the walkthrough steps\<close>

record InputRequest =
  prompt :: js_string
  placeholder :: js_string

text \<open>
  \<^verbatim>\<open>interface WalkthroughStep\<close>. The field \<open>args\<close> is an array, a mutable object that
  the step refers to: in a literal it is written out (\<open>'a\<close> is \<open>js_string list\<close>), in
  the running program it is the address of the array in the store (\<open>'a\<close> is \<open>nat\<close>).
\<close>

record 'a WalkthroughStep =
  step_id :: js_string
  title :: js_string
  description :: js_string
  command :: js_string
  args :: 'a
  requiresInput :: "InputRequest option"
  step_notes :: "js_string option"

definition WALKTHROUGH_STEPS :: "js_string list WalkthroughStep list" where
  "WALKTHROUGH_STEPS = [
    \<lparr> step_id = str ''check-git'',
      title = str ''1. Check Git is Installed'',
      description =
        str ''Before we start, let's make sure Git is installed on your computer. '' @
        str ''This command prints the Git version number. If you see a version, you're good to go!'',
      command = str ''git --version'',
      args = [str ''--version''],
      requiresInput = None,
      step_notes = None \<rparr>,
    \<lparr> step_id = str ''init-repo'',
      title = str ''2. Initialize a Repository'',
      description =
        str ''This creates a new Git repository in your current folder. '' @
        str ''It adds a hidden .git folder that Git uses to track all your changes. '' @
        str ''You only need to do this once per project.'',
      command = str ''git init'',
      args = [str ''init''],
      requiresInput = None,
      step_notes = Some (str ''If your folder is already a Git repo, this is safe to run again '' @ dash @
        str '' it won't overwrite anything.'') \<rparr>,
    \<lparr> step_id = str ''check-status'',
      title = str ''3. Check Status'',
      description =
        str ''This shows the current state of your repository: which files are new, '' @
        str ''which are modified, and which are staged (ready to commit). '' @
        str ''Get in the habit of running this often!'',
      command = str ''git status'',
      args = [str ''status''],
      requiresInput = None,
      step_notes = None \<rparr>,
    \<lparr> step_id = str ''make-changes'',
      title = str ''4. Make a File Change'',
      description =
        str ''Before we can stage and commit, we need something to commit! '' @
        str ''Go create or edit a file in your project folder '' @ dash @ str '' for example, '' @
        str ''create a file called 'hello.txt' with some text in it. '' @
        str ''When you're ready, click 'Run Step' to check the status and see your changes listed.'',
      command = str ''git status'',
      args = [str ''status''],
      requiresInput = None,
      step_notes = Some (str ''This step runs 'git status' so you can see your new/changed files appear in the output.'') \<rparr>,
    \<lparr> step_id = str ''stage-files'',
      title = str ''5. Stage Your Files'',
      description =
        str ''Staging tells Git which changes you want to include in your next commit. '' @
        str ''Think of it like putting files into a box before sealing it. '' @
        str ''The dot (.) means 'stage everything in the current folder'.'',
      command = str ''git add .'',
      args = [str ''add'', str ''.''],
      requiresInput = None,
      step_notes = Some (str ''You can also stage specific files with 'git add filename.txt'.'') \<rparr>,
    \<lparr> step_id = str ''commit'',
      title = str ''6. Commit Your Changes'',
      description =
        str ''A commit is a saved snapshot of your staged changes. '' @
        str ''Each commit needs a message describing what you changed. '' @
        str ''Good commit messages are short but descriptive, like 'Add homepage layout'.'',
      command = str ''git commit -m '' @ dquote @ str ''your message'' @ dquote,
      args = [str ''commit'', str ''-m''],
      requiresInput = Some \<lparr> prompt = str ''Enter your commit message'',
        placeholder = str ''e.g., Add initial project files'' \<rparr>,
      step_notes = None \<rparr>,
    \<lparr> step_id = str ''add-remote'',
      title = str ''7. Add a Remote (GitHub)'',
      description =
        str ''A 'remote' is a copy of your repo stored online (like on GitHub). '' @
        str ''This command links your local repo to a GitHub repository. '' @
        str ''First, create a new repo on github.com, then paste the URL here.'',
      command = str ''git remote add origin <url>'',
      args = [str ''remote'', str ''add'', str ''origin''],
      requiresInput = Some \<lparr> prompt = str ''Enter your GitHub repository URL'',
        placeholder = str ''https://github.com/username/my-repo.git'' \<rparr>,
      step_notes = Some (str ''Find the URL on your GitHub repo page '' @ dash @
        str '' click the green 'Code' button and copy the HTTPS link.'') \<rparr>,
    \<lparr> step_id = str ''push'',
      title = str ''8. Push to GitHub'',
      description =
        str ''Push uploads your commits to the remote repository (GitHub). '' @
        str ''The '-u' flag sets 'origin main' as the default, so next time '' @
        str ''you can just type 'git push' without the extra arguments.'',
      command = str ''git push -u origin main'',
      args = [str ''push'', str ''-u'', str ''origin'', str ''main''],
      requiresInput = None,
      step_notes = Some (str ''If your default branch is called 'master' instead of 'main', '' @
        str ''change 'main' to 'master'. Newer Git versions use 'main' by default.'') \<rparr>,
    \<lparr> step_id = str ''pull'',
      title = str ''9. Pull from GitHub'',
      description =
        str ''Pull downloads the latest changes from the remote repository '' @
        str ''and merges them into your local branch. This is how you stay '' @
        str ''up to date with changes made by teammates (or yourself on another computer).'',
      command = str ''git pull'',
      args = [str ''pull''],
      requiresInput = None,
      step_notes = Some (str ''Always pull before you start working to avoid merge conflicts!'') \<rparr>
  ]"

section \<open>The host: output channel, input box, workspace, process, webview\<close>

type_synonym OutputChannel = nat
type_synonym webview = nat

text \<open>What the extension posts to a webview (\<^verbatim>\<open>type: "status"\<close> and \<^verbatim>\<open>type: "result"\<close>).\<close>

datatype out_message =
  StatusMessage js_string js_string
| ResultMessage js_string bool js_string

text \<open>
  Every call the code makes on the host, in the order the calls happen:
  \<^verbatim>\<open>outputChannel.appendLine\<close>, \<^verbatim>\<open>outputChannel.show\<close>,
  \<^verbatim>\<open>vscode.window.showErrorMessage\<close>, \<^verbatim>\<open>execFile(program, args, {cwd})\<close>,
  \<^verbatim>\<open>vscode.window.showInputBox\<close>, \<^verbatim>\<open>webview.postMessage\<close> and
  \<^verbatim>\<open>webview.onDidReceiveMessage\<close>. \<open>Uncaught e\<close> ends a trace: the exception \<open>e\<close>
  leaves the message listener (its promise rejects) and nothing in the extension catches
  it.
\<close>

datatype effect =
  AppendLine OutputChannel js_string
| Show OutputChannel
| ShowErrorMessage js_string
| ExecFile js_string "js_string list" js_string
| ShowInputBox js_string js_string
| PostMessage webview out_message
| OnDidReceiveMessage webview
| Uncaught js_string

text \<open>
  Node's \<^verbatim>\<open>child_process.execFile\<close> is not part of the repository. The code calls it
  with the options \<^verbatim>\<open>{ cwd }\<close> only, so the default \<^verbatim>\<open>maxBuffer\<close> of 1 MiB applies.
  A call either throws at once, before any callback (an argument contains a NUL
  character, or the spawn fails with an error such as E2BIG), or calls back when the
  child has ended. The callback's \<open>error\<close> is \<open>null\<close> exactly when the child exited with
  code 0 and neither stream went over \<^verbatim>\<open>maxBuffer\<close>; otherwise it is an \<^verbatim>\<open>Error\<close>
  object with a \<open>message\<close>: the child exited with another code, was ended by a signal,
  could not be started (reported late, as ENOENT is), or wrote too much.
\<close>

datatype exit_status = ExitCode int | Signalled | SpawnFailed

record process_run =
  status :: exit_status
  maxBuffer_exceeded :: bool
  failure_message :: js_string
  stdout :: js_string
  stderr :: js_string

definition exec_error :: "process_run \<Rightarrow> js_string option" where
  "exec_error p =
     (if status p = ExitCode 0 \<and> \<not> maxBuffer_exceeded p then None
      else Some (failure_message p))"

datatype exec_outcome =
  Throws js_string
| CallsBack process_run

text \<open>
  The answers of the host during one call: the fsPaths of
  \<^verbatim>\<open>vscode.workspace.workspaceFolders\<close> (\<open>None\<close> is \<^verbatim>\<open>undefined\<close>), what
  \<^verbatim>\<open>showInputBox\<close> resolves to (\<open>None\<close> is \<^verbatim>\<open>undefined\<close>, the user pressed
  Escape), and what \<^verbatim>\<open>execFile\<close> does if it is called.
\<close>

record host =
  workspaceFolders :: "js_string list option"
  inputBox :: "js_string option"
  process :: exec_outcome

section \<open>gitCommands.ts: the runner\<close>

record GitCommandResult =
  success :: bool
  output_text :: js_string

definition errorMsg :: js_string where
  "errorMsg = str ''No folder is open in VS Code. Please open a folder first '' @
              str ''(File > Open Folder).''"

definition displayCmd :: "js_string list \<Rightarrow> js_string" where
  "displayCmd as =
     str ''git '' @
     join (str '' '') (map (\<lambda>a. if includes_js a 0x20 then dquote @ a @ dquote else a) as)"

text \<open>
  \<^verbatim>\<open>runGitCommand(args, outputChannel)\<close>: the calls on the host, and how the promise
  settles: \<open>Inr r\<close> when it resolves with the result \<open>r\<close>, \<open>Inl e\<close> when it rejects with
  \<open>e\<close>. \<^verbatim>\<open>execFile\<close> is called in the promise's executor with no \<^verbatim>\<open>try\<close> around it, so
  an exception it throws rejects the promise, after the three lines already appended. The
  last \<^verbatim>\<open>appendLine("")\<close> comes after \<^verbatim>\<open>resolve\<close> in the callback and before anything
  that awaits the promise continues.
\<close>

definition runGitCommand ::
  "js_string list \<Rightarrow> OutputChannel \<Rightarrow> host \<Rightarrow> effect list \<times> (js_string + GitCommandResult)" where
  "runGitCommand as outputChannel h =
     (if workspaceFolders h = None \<or> workspaceFolders h = Some [] then
        ([AppendLine outputChannel (str ''ERROR: '' @ errorMsg),
          Show outputChannel,
          ShowErrorMessage errorMsg],
         Inr \<lparr> success = False, output_text = errorMsg \<rparr>)
      else
        let cwd = hd (the (workspaceFolders h));
            logged =
              [AppendLine outputChannel (str ''> '' @ displayCmd as),
               AppendLine outputChannel (str ''  (in: '' @ cwd @ str '')''),
               AppendLine outputChannel (str ''---''),
               ExecFile (str ''git'') as cwd]
        in (case process h of
              Throws e \<Rightarrow> (logged, Inl e)
            | CallsBack p \<Rightarrow>
                let out = trim (stdout p @ stderr p)
                in (case exec_error p of
                      Some message \<Rightarrow>
                        (logged @
                         [AppendLine outputChannel
                            (str ''ERROR:'' @ newline @ or_else out message),
                          Show outputChannel,
                          AppendLine outputChannel []],
                         Inr \<lparr> success = False, output_text = or_else out message \<rparr>)
                    | None \<Rightarrow>
                        (logged @
                         [AppendLine outputChannel (or_else out (str ''(no output)'')),
                          Show outputChannel,
                          AppendLine outputChannel []],
                         Inr \<lparr> success = True,
                               output_text = or_else out (str ''(no output)'') \<rparr>))))"

section \<open>The program state\<close>

text \<open>
  The code shares mutable arrays by reference: \<^verbatim>\<open>step.args\<close> is the array object of
  the catalog, \<^verbatim>\<open>[...step.args]\<close> allocates a new one and \<^verbatim>\<open>args.push\<close> writes to
  whichever array \<^verbatim>\<open>args\<close> refers to. So arrays live in a store, a list indexed by
  address, and a step holds the address of its \<open>args\<close>. The state also holds the
  contents of the module constant \<^verbatim>\<open>WALKTHROUGH_STEPS\<close>, the provider's fields
  \<^verbatim>\<open>_view\<close> and \<^verbatim>\<open>_outputChannel\<close>, and the webviews on which the provider has
  registered its message listener.
\<close>

record world =
  steps :: "nat WalkthroughStep list"
  arrays :: "js_string list list"
  view :: "webview option"
  outputChannel :: OutputChannel
  listeners :: "webview list"

text \<open>
  Evaluating the array literal of steps.ts: each \<open>args\<close> literal is allocated at the
  next free address, and the step object refers to it.
\<close>

fun load_steps ::
  "js_string list WalkthroughStep list \<Rightarrow> js_string list list \<Rightarrow>
   nat WalkthroughStep list \<times> js_string list list" where
  "load_steps [] store = ([], store)"
| "load_steps (s # ss) store =
     (let obj = \<lparr> step_id = step_id s, title = title s, description = description s,
                  command = command s, args = length store,
                  requiresInput = requiresInput s, step_notes = step_notes s \<rparr>;
          (objs, store') = load_steps ss (store @ [args s])
      in (obj # objs, store'))"

text \<open>
  The state once the modules are loaded and \<^verbatim>\<open>new WalkthroughProvider(outputChannel)\<close>
  has run: no view yet, no listener yet.
\<close>

definition init_world :: world where
  "init_world =
     (let (objs, store) = load_steps WALKTHROUGH_STEPS []
      in \<lparr> steps = objs, arrays = store, view = None, outputChannel = 0, listeners = [] \<rparr>)"

section \<open>walkthroughProvider.ts: the controller\<close>

record message =
  msg_type :: js_string
  stepId :: js_string

text \<open>\<^verbatim>\<open>this._view?.webview.postMessage(...)\<close>: nothing is posted while there is no view.\<close>

definition sendStatusToWebview :: "js_string \<Rightarrow> js_string \<Rightarrow> world \<Rightarrow> effect list" where
  "sendStatusToWebview sid st w =
     (case view w of
        None \<Rightarrow> []
      | Some v \<Rightarrow> [PostMessage v (StatusMessage sid st)])"

definition sendResultToWebview :: "js_string \<Rightarrow> GitCommandResult \<Rightarrow> world \<Rightarrow> effect list" where
  "sendResultToWebview sid r w =
     (case view w of
        None \<Rightarrow> []
      | Some v \<Rightarrow> [PostMessage v (ResultMessage sid (success r) (output_text r))])"

text \<open>
  \<^verbatim>\<open>resolveWebviewView\<close>: the view is stored first, then the listener that calls
  \<^verbatim>\<open>_handleMessage\<close> is registered on it. (Setting the webview's options and HTML
  reads the steps and writes only to the webview; it is left out.)
\<close>

definition resolveWebviewView :: "webview \<Rightarrow> world \<Rightarrow> effect list \<times> world" where
  "resolveWebviewView webviewView w =
     ([OnDidReceiveMessage webviewView],
      w\<lparr> view := Some webviewView, listeners := webviewView # listeners w \<rparr>)"

definition cancelled :: GitCommandResult where
  "cancelled =
     \<lparr> success = False,
       output_text = str ''Cancelled '' @ dash @ str '' no input provided.'' \<rparr>"

text \<open>
  The end of \<^verbatim>\<open>_handleMessage\<close>: \<^verbatim>\<open>await runGitCommand(args, ...)\<close> and then
  \<^verbatim>\<open>_sendResultToWebview\<close>. There is no \<^verbatim>\<open>catch\<close>: when the runner's promise rejects,
  the exception leaves \<^verbatim>\<open>_handleMessage\<close> and its listener, and no result is sent.
\<close>

definition awaitResult ::
  "js_string \<Rightarrow> js_string + GitCommandResult \<Rightarrow> world \<Rightarrow> effect list" where
  "awaitResult sid settled w =
     (case settled of
        Inl e \<Rightarrow> [Uncaught e]
      | Inr result \<Rightarrow> sendResultToWebview sid result w)"

text \<open>
  \<^verbatim>\<open>_handleMessage(message)\<close>, with the answers of the host in \<open>h\<close>. The local
  \<^verbatim>\<open>args\<close> is the address \<open>a\<close> of the copy; \<^verbatim>\<open>args.push(userInput)\<close> writes there.
\<close>

definition handleMessage :: "message \<Rightarrow> host \<Rightarrow> world \<Rightarrow> effect list \<times> world" where
  "handleMessage m h w =
     (if msg_type m \<noteq> str ''runStep'' then ([], w)
      else
        case find (\<lambda>s. step_id s = stepId m) (steps w) of
          None \<Rightarrow> ([], w)
        | Some step \<Rightarrow>
            let a = length (arrays w);
                w1 = w\<lparr> arrays := arrays w @ [arrays w ! args step] \<rparr>
            in (case requiresInput step of
                  None \<Rightarrow>
                    (let (log, settled) = runGitCommand (arrays w1 ! a) (outputChannel w1) h
                     in (sendStatusToWebview (step_id step) (str ''running'') w1 @ log @
                         awaitResult (step_id step) settled w1,
                         w1))
                | Some req \<Rightarrow>
                    let ask = [ShowInputBox (prompt req) (placeholder req)]
                    in if inputBox h = None \<or> trim (the (inputBox h)) = [] then
                         (ask @ sendResultToWebview (step_id step) cancelled w1, w1)
                       else
                         let userInput = the (inputBox h);
                             w2 = w1\<lparr> arrays := (arrays w1)[a := arrays w1 ! a @ [userInput]] \<rparr>;
                             (log, settled) = runGitCommand (arrays w2 ! a) (outputChannel w2) h
                         in (ask @ sendStatusToWebview (step_id step) (str ''running'') w2 @ log @
                             awaitResult (step_id step) settled w2,
                             w2)))"

section \<open>The running extension\<close>

text \<open>
  What the host does to the extension: it resolves a webview view, or a webview delivers
  a message (with the host's answers for that call). A message reaches
  \<^verbatim>\<open>_handleMessage\<close> only through a listener registered by \<^verbatim>\<open>resolveWebviewView\<close>.
  Calls are taken one at a time.
\<close>

datatype event =
  ResolveWebviewView webview
| ReceiveMessage webview message host

fun dispatch :: "event \<Rightarrow> world \<Rightarrow> effect list \<times> world" where
  "dispatch (ResolveWebviewView v) w = resolveWebviewView v w"
| "dispatch (ReceiveMessage v m h) w =
     (if v \<in> set (listeners w) then handleMessage m h w else ([], w))"

fun run_events :: "event list \<Rightarrow> world \<Rightarrow> effect list \<times> world" where
  "run_events [] w = ([], w)"
| "run_events (e # es) w =
     (let (out1, w1) = dispatch e w; (out2, w2) = run_events es w1 in (out1 @ out2, w2))"

text \<open>
  Projections of a trace: the lines appended to the output channel, the messages posted
  to the webview, and the calls of \<^verbatim>\<open>execFile\<close> (arguments and working directory).
\<close>

fun appended_lines :: "effect list \<Rightarrow> js_string list" where
  "appended_lines [] = []"
| "appended_lines (AppendLine c l # es) = l # appended_lines es"
| "appended_lines (e # es) = appended_lines es"

fun posted :: "effect list \<Rightarrow> out_message list" where
  "posted [] = []"
| "posted (PostMessage v msg # es) = msg # posted es"
| "posted (e # es) = posted es"

fun executions :: "effect list \<Rightarrow> (js_string list \<times> js_string) list" where
  "executions [] = []"
| "executions (ExecFile prog as cwd # es) = (as, cwd) # executions es"
| "executions (e # es) = executions es"

section \<open>Concrete runs\<close>

text \<open>Hosts, messages and a state used to run the definitions on concrete inputs.\<close>

definition quiet_run :: process_run where
  "quiet_run =
     \<lparr> status = ExitCode 0, maxBuffer_exceeded = False, failure_message = [],
       stdout = [], stderr = [] \<rparr>"

definition demo_folder_host :: host where
  "demo_folder_host =
     \<lparr> workspaceFolders = Some [str ''/home/u/project''],
       inputBox = Some (str ''fix bug''),
       process = CallsBack (quiet_run\<lparr> stdout := str ''On branch main'' @ newline \<rparr>) \<rparr>"

definition demo_injection_host :: host where
  "demo_injection_host =
     \<lparr> workspaceFolders = Some [str ''/home/u/project''],
       inputBox = Some (str ''; rm -rf /''),
       process = CallsBack
         \<lparr> status = ExitCode 1, maxBuffer_exceeded = False,
           failure_message = str ''Command failed'',
           stdout = [], stderr = str ''nothing to commit'' \<rparr> \<rparr>"

definition demo_blank_host :: host where
  "demo_blank_host =
     \<lparr> workspaceFolders = Some [str ''/home/u/project''],
       inputBox = Some (str ''   ''),
       process = CallsBack quiet_run \<rparr>"

definition demo_no_folder_host :: host where
  "demo_no_folder_host =
     \<lparr> workspaceFolders = None, inputBox = None, process = CallsBack quiet_run \<rparr>"

definition demo_tab_host :: host where
  "demo_tab_host =
     \<lparr> workspaceFolders = Some [str ''/p''], inputBox = None, process = CallsBack quiet_run \<rparr>"

text \<open>
  \<^verbatim>\<open>git status\<close> lists so many files that its output goes over \<^verbatim>\<open>maxBuffer\<close>; the
  child has written everything and exits with code 0.
\<close>

definition demo_overflow_host :: host where
  "demo_overflow_host =
     \<lparr> workspaceFolders = Some [str ''/home/u/project''],
       inputBox = None,
       process = CallsBack
         \<lparr> status = ExitCode 0, maxBuffer_exceeded = True,
           failure_message = str ''stdout maxBuffer length exceeded'',
           stdout = str ''On branch main'' @ newline, stderr = [] \<rparr> \<rparr>"

text \<open>The user's commit message contains a NUL character: \<^verbatim>\<open>execFile\<close> throws.\<close>

definition demo_nul_host :: host where
  "demo_nul_host =
     \<lparr> workspaceFolders = Some [str ''/home/u/project''],
       inputBox = Some (str ''fix'' @ [0x00] @ str ''bug''),
       process = Throws (str ''ERR_INVALID_ARG_VALUE'') \<rparr>"

text \<open>An argument longer than the system allows: the spawn fails and \<^verbatim>\<open>execFile\<close> throws.\<close>

definition demo_e2big_host :: host where
  "demo_e2big_host =
     \<lparr> workspaceFolders = Some [str ''/home/u/project''],
       inputBox = Some (replicate 200000 0x61),
       process = Throws (str ''spawn E2BIG'') \<rparr>"

definition runStep_commit :: message where
  "runStep_commit = \<lparr> msg_type = str ''runStep'', stepId = str ''commit'' \<rparr>"

definition runStep_rebase :: message where
  "runStep_rebase = \<lparr> msg_type = str ''runStep'', stepId = str ''rebase'' \<rparr>"

definition refresh_commit :: message where
  "refresh_commit = \<lparr> msg_type = str ''refresh'', stepId = str ''commit'' \<rparr>"

definition demo_world :: world where
  "demo_world = snd (run_events [ResolveWebviewView 7] init_world)"

section \<open>Strings and trimming\<close>

lemma unat_of_char: "unat (of_char c :: 16 word) = of_char c"
proof -
  have a: "(of_char c :: 16 word) = of_nat (of_char c)"
    by (simp add: of_nat_of_char)
  have b: "(of_char c :: nat) < 65536"
    by (rule less_trans [OF nat_of_char_less_256]) simp
  show ?thesis
    by (subst a) (simp add: unat_of_nat b)
qed

lemma of_char_word_eq_iff: "(of_char c :: 16 word) = of_char d \<longleftrightarrow> c = d"
  by (metis unat_of_char of_char_eq_iff)

lemma str_eq_iff: "str a = str b \<longleftrightarrow> a = b"
  unfolding str_def by (rule inj_map_eq_map) (simp add: inj_on_def of_char_word_eq_iff)





section \<open>Traces\<close>

lemma posted_append: "posted (xs @ ys) = posted xs @ posted ys"
  by (induction xs rule: posted.induct) simp_all

lemma executions_append: "executions (xs @ ys) = executions xs @ executions ys"
  by (induction xs rule: executions.induct) simp_all

lemma appended_lines_append:
  "appended_lines (xs @ ys) = appended_lines xs @ appended_lines ys"
  by (induction xs rule: appended_lines.induct) simp_all

lemma posted_runGitCommand: "posted (fst (runGitCommand as oc h)) = []"
  by (simp add: runGitCommand_def Let_def split: option.splits exec_outcome.splits)

text \<open>With a folder open \<^verbatim>\<open>execFile\<close> is called once, whatever it then does.\<close>

lemma executions_runGitCommand:
  "workspaceFolders h = Some (folder # rest) \<Longrightarrow>
   executions (fst (runGitCommand as oc h)) = [(as, folder)]"
  by (simp add: runGitCommand_def Let_def split: option.splits exec_outcome.splits)

lemma executions_send:
  "executions (sendStatusToWebview x y w) = []"
  "executions (sendResultToWebview x r w) = []"
  "executions (awaitResult x s w) = []"
  by (simp_all add: sendStatusToWebview_def sendResultToWebview_def awaitResult_def
      split: option.splits sum.splits)

text \<open>
  When \<^verbatim>\<open>execFile\<close> calls back, the promise resolves, and \<open>success\<close> says that the
  callback had no error: exit code 0 and no stream over \<^verbatim>\<open>maxBuffer\<close>.
\<close>

lemma runGitCommand_resolves:
  assumes "workspaceFolders h = Some (folder # rest)" and "process h = CallsBack p"
  shows "\<exists>r. snd (runGitCommand as oc h) = Inr r \<and>
           (success r \<longleftrightarrow> status p = ExitCode 0 \<and> \<not> maxBuffer_exceeded p)"
  using assms by (simp add: runGitCommand_def exec_error_def Let_def)

text \<open>When \<^verbatim>\<open>execFile\<close> throws, the promise rejects after the three header lines.\<close>

lemma runGitCommand_rejects:
  assumes "workspaceFolders h = Some (folder # rest)" and "process h = Throws e"
  shows "runGitCommand as oc h =
           ([AppendLine oc (str ''> '' @ displayCmd as),
             AppendLine oc (str ''  (in: '' @ folder @ str '')''),
             AppendLine oc (str ''---''),
             ExecFile (str ''git'') as folder],
            Inl e)"
  using assms by (simp add: runGitCommand_def Let_def)

section \<open>Loading the catalog\<close>

lemma load_steps_store: "snd (load_steps ss store) = store @ map args ss"
  by (induction ss arbitrary: store) (simp_all add: Let_def case_prod_beta)

lemma load_steps_length: "length (fst (load_steps ss store)) = length ss"
  by (induction ss arbitrary: store) (simp_all add: Let_def case_prod_beta)

lemma load_steps_ids: "map step_id (fst (load_steps ss store)) = map step_id ss"
  by (induction ss arbitrary: store) (simp_all add: Let_def case_prod_beta)

lemma load_steps_args:
  "i < length ss \<Longrightarrow> args (fst (load_steps ss store) ! i) = length store + i"
proof (induction ss arbitrary: store i)
  case Nil
  then show ?case by simp
next
  case (Cons s ss)
  show ?case
  proof (cases i)
    case 0
    then show ?thesis by (simp add: Let_def case_prod_beta)
  next
    case (Suc j)
    with Cons.prems have "j < length ss" by simp
    from Cons.IH [OF this, of "store @ [args s]"] Suc show ?thesis
      by (simp add: Let_def case_prod_beta)
  qed
qed

lemma load_steps_deref:
  "map (\<lambda>s. snd (load_steps ss []) ! args s) (fst (load_steps ss [])) = map args ss"
  by (rule nth_equalityI) (simp_all add: load_steps_length load_steps_args load_steps_store)

text \<open>In the initial state every step refers to an allocated array, its own literal.\<close>

lemma init_deref:
  "map (\<lambda>s. arrays init_world ! args s) (steps init_world) = map args WALKTHROUGH_STEPS"
  using load_steps_deref [of WALKTHROUGH_STEPS]
  by (simp add: init_world_def case_prod_beta)

lemma init_wf: "\<forall>s \<in> set (steps init_world). args s < length (arrays init_world)"
  by (auto simp add: init_world_def case_prod_beta load_steps_store in_set_conv_nth
      load_steps_length load_steps_args)

lemma init_ids:
  "map step_id (steps init_world) =
     [str ''check-git'', str ''init-repo'', str ''check-status'', str ''make-changes'',
      str ''stage-files'', str ''commit'', str ''add-remote'', str ''push'', str ''pull'']"
  by (simp add: init_world_def case_prod_beta load_steps_ids WALKTHROUGH_STEPS_def)

lemma find_commit:
  "find (\<lambda>s. step_id s = str ''commit'') (steps init_world) = Some (steps init_world ! 5)"
  by (simp add: init_world_def case_prod_beta WALKTHROUGH_STEPS_def Let_def str_eq_iff)

lemma commit_step:
  "requiresInput (steps init_world ! 5) =
     Some \<lparr> prompt = str ''Enter your commit message'',
            placeholder = str ''e.g., Add initial project files'' \<rparr> \<and>
   arrays init_world ! args (steps init_world ! 5) = [str ''commit'', str ''-m'']"
  by (simp add: init_world_def case_prod_beta WALKTHROUGH_STEPS_def Let_def)

lemma find_None_ids: "find (\<lambda>s. step_id s = x) ss = None \<longleftrightarrow> x \<notin> set (map step_id ss)"
  by (auto simp: find_None_iff)

lemma find_Some_id: "find (\<lambda>s. step_id s = x) ss = Some s \<Longrightarrow> step_id s = x"
  by (auto simp: find_Some_iff)

section \<open>What a call leaves unchanged\<close>

lemma handleMessage_frame:
  "steps (snd (handleMessage m h w)) = steps w \<and>
   view (snd (handleMessage m h w)) = view w \<and>
   listeners (snd (handleMessage m h w)) = listeners w \<and>
   outputChannel (snd (handleMessage m h w)) = outputChannel w"
  by (simp add: handleMessage_def Let_def case_prod_beta split: option.splits)

text \<open>The store only grows: a call writes to the array it has just allocated.\<close>

lemma handleMessage_arrays: "\<exists>ext. arrays (snd (handleMessage m h w)) = arrays w @ ext"
  by (simp add: handleMessage_def Let_def case_prod_beta split: option.splits)

lemma dispatch_steps: "steps (snd (dispatch e w)) = steps w"
  by (cases e) (simp_all add: handleMessage_frame resolveWebviewView_def)

lemma dispatch_arrays: "\<exists>ext. arrays (snd (dispatch e w)) = arrays w @ ext"
  by (cases e) (simp_all add: handleMessage_arrays resolveWebviewView_def)

lemma dispatch_view:
  "listeners w = [] \<or> view w \<noteq> None \<Longrightarrow>
   listeners (snd (dispatch e w)) = [] \<or> view (snd (dispatch e w)) \<noteq> None"
  by (cases e) (simp_all add: handleMessage_frame resolveWebviewView_def)

lemma run_events_steps: "steps (snd (run_events es w)) = steps w"
  by (induction es arbitrary: w) (simp_all add: case_prod_beta dispatch_steps)

lemma run_events_arrays: "\<exists>ext. arrays (snd (run_events es w)) = arrays w @ ext"
proof (induction es arbitrary: w)
  case Nil
  then show ?case by simp
next
  case (Cons e es)
  obtain x where x: "arrays (snd (dispatch e w)) = arrays w @ x"
    using dispatch_arrays by blast
  obtain y where y:
    "arrays (snd (run_events es (snd (dispatch e w)))) = arrays (snd (dispatch e w)) @ y"
    using Cons.IH by blast
  from x y show ?case by (simp add: case_prod_beta)
qed

lemma run_events_view:
  "listeners w = [] \<or> view w \<noteq> None \<Longrightarrow>
   listeners (snd (run_events es w)) = [] \<or> view (snd (run_events es w)) \<noteq> None"
proof (induction es arbitrary: w)
  case Nil
  then show ?case by simp
next
  case (Cons e es)
  from Cons.IH [OF dispatch_view [OF Cons.prems, of e]] show ?case
    by (simp add: case_prod_beta)
qed

text \<open>
  A webview that can deliver a message has been resolved, and then the provider has a
  view to post to.
\<close>

lemma reachable_view:
  assumes "src \<in> set (listeners (snd (run_events es init_world)))"
  shows "\<exists>v. view (snd (run_events es init_world)) = Some v"
proof -
  have "listeners init_world = [] \<or> view init_world \<noteq> None"
    by (simp add: init_world_def case_prod_beta)
  from run_events_view [OF this, of es] assms show ?thesis by auto
qed

lemma demo_world_simps:
  "steps demo_world = steps init_world" "listeners demo_world = [7]"
  "view demo_world = Some 7"
  by (simp_all add: demo_world_def case_prod_beta resolveWebviewView_def init_world_def)

section \<open>The runner\<close>

text \<open>
  Claim C2 does not hold of the code. The interface documents \<open>success\<close> as "exit code
  0", but the code tests only the callback's \<open>error\<close>, and calls \<^verbatim>\<open>execFile\<close> with the
  default \<^verbatim>\<open>maxBuffer\<close> and with no \<^verbatim>\<open>try\<close>. A \<^verbatim>\<open>git status\<close> that exits with code 0
  after writing more than \<^verbatim>\<open>maxBuffer\<close> gives \<open>success = False\<close>; and a spawn that fails
  with E2BIG gives no result at all: the promise rejects.
\<close>

theorem exit_zero_reported_failed:
  "process demo_overflow_host =
     CallsBack \<lparr> status = ExitCode 0, maxBuffer_exceeded = True,
                 failure_message = str ''stdout maxBuffer length exceeded'',
                 stdout = str ''On branch main'' @ newline, stderr = [] \<rparr> \<and>
   snd (runGitCommand [str ''status''] 0 demo_overflow_host) =
     Inr \<lparr> success = False, output_text = str ''On branch main'' \<rparr> \<and>
   snd (runGitCommand [str ''commit'', str ''-m'', replicate 200000 0x61] 0 demo_e2big_host) =
     Inl (str ''spawn E2BIG'')"
  by (simp add: runGitCommand_def demo_overflow_host_def demo_e2big_host_def exec_error_def
      Let_def or_else_def trim_def str_def isWhiteSpace_def)



text \<open>
  Claim C4. When no workspace folder is open (\<^verbatim>\<open>workspaceFolders\<close> is undefined or
  empty), the runner calls \<^verbatim>\<open>execFile\<close> not at all; it appends one line to the output
  channel, shows the channel, and resolves with \<open>success = False\<close> and the fixed message
  \<open>errorMsg\<close>, whatever the arguments are.
\<close>

theorem runGitCommand_no_folder:
  assumes "workspaceFolders h = None \<or> workspaceFolders h = Some []"
  shows "runGitCommand as oc h =
           ([AppendLine oc (str ''ERROR: '' @ errorMsg), Show oc, ShowErrorMessage errorMsg],
            Inr \<lparr> success = False, output_text = errorMsg \<rparr>) \<and>
         executions (fst (runGitCommand as oc h)) = []"
  using assms by (auto simp add: runGitCommand_def)

theorem runGitCommand_no_folder_witness:
  "(workspaceFolders demo_no_folder_host = None \<or>
    workspaceFolders demo_no_folder_host = Some []) \<and>
   runGitCommand [str ''status''] 0 demo_no_folder_host =
     ([AppendLine 0 (str ''ERROR: '' @ errorMsg), Show 0, ShowErrorMessage errorMsg],
      Inr \<lparr> success = False, output_text = errorMsg \<rparr>) \<and>
   executions (fst (runGitCommand [str ''status''] 0 demo_no_folder_host)) = []"
proof -
  have n: "workspaceFolders demo_no_folder_host = None \<or>
           workspaceFolders demo_no_folder_host = Some []"
    by (simp add: demo_no_folder_host_def)
  from runGitCommand_no_folder [OF n, of "[str ''status'']" 0] n show ?thesis
    by simp
qed

text \<open>
  Claim C6, as the code has it by design. With a workspace folder open, when \<^verbatim>\<open>execFile\<close>
  calls back, the trace of a call is: the line \<^verbatim>\<open>> git\<close> and the arguments joined by
  single spaces, an argument wrapped in double quotes exactly when it contains the space
  character U+0020; the line with the working directory; the line \<^verbatim>\<open>---\<close>; the call of
  \<^verbatim>\<open>execFile\<close>; the output text of the result, after \<^verbatim>\<open>ERROR:\<close> and a line break when
  the call failed; the request to show the channel; an empty line. With no workspace
  folder open, the trace is one line, \<^verbatim>\<open>ERROR:\<close> and the fixed message, and the request
  to show the channel, with no command line, no working directory and no empty line.
\<close>

theorem runGitCommand_log:
  "(workspaceFolders h = Some (folder # rest) \<and> process h = CallsBack p \<longrightarrow>
      (\<exists>r. snd (runGitCommand as oc h) = Inr r \<and>
         fst (runGitCommand as oc h) =
           [AppendLine oc (str ''> git '' @
              join (str '' '')
                (map (\<lambda>a. if 0x20 \<in> set a then dquote @ a @ dquote else a) as)),
            AppendLine oc (str ''  (in: '' @ folder @ str '')''),
            AppendLine oc (str ''---''),
            ExecFile (str ''git'') as folder,
            AppendLine oc
              ((if success r then [] else str ''ERROR:'' @ newline) @ output_text r),
            Show oc,
            AppendLine oc []])) \<and>
   (workspaceFolders h = None \<or> workspaceFolders h = Some [] \<longrightarrow>
      fst (runGitCommand as oc h) =
        [AppendLine oc (str ''ERROR: '' @ errorMsg), Show oc, ShowErrorMessage errorMsg])"
  by (auto simp add: runGitCommand_def exec_error_def Let_def displayCmd_def includes_js_def
      str_def)

theorem runGitCommand_log_witness:
  "workspaceFolders demo_folder_host = Some [str ''/home/u/project''] \<and>
   process demo_folder_host =
     CallsBack (quiet_run\<lparr> stdout := str ''On branch main'' @ newline \<rparr>) \<and>
   fst (runGitCommand [str ''commit'', str ''-m'', str ''fix bug''] 0 demo_folder_host) =
     [AppendLine 0 (str ''> git commit -m '' @ dquote @ str ''fix bug'' @ dquote),
      AppendLine 0 (str ''  (in: /home/u/project)''),
      AppendLine 0 (str ''---''),
      ExecFile (str ''git'') [str ''commit'', str ''-m'', str ''fix bug'']
        (str ''/home/u/project''),
      AppendLine 0 (str ''On branch main''),
      Show 0,
      AppendLine 0 []] \<and>
   workspaceFolders demo_no_folder_host = None \<and>
   fst (runGitCommand [str ''status''] 0 demo_no_folder_host) =
     [AppendLine 0 (str ''ERROR: '' @ errorMsg), Show 0, ShowErrorMessage errorMsg]"
proof -
  have f: "workspaceFolders demo_folder_host = Some [str ''/home/u/project'']"
    by (simp add: demo_folder_host_def)
  have p: "process demo_folder_host =
             CallsBack (quiet_run\<lparr> stdout := str ''On branch main'' @ newline \<rparr>)"
    by (simp add: demo_folder_host_def)
  have n: "workspaceFolders demo_no_folder_host = None"
    by (simp add: demo_no_folder_host_def)
  have r: "snd (runGitCommand [str ''commit'', str ''-m'', str ''fix bug''] 0
             demo_folder_host) =
           Inr \<lparr> success = True, output_text = str ''On branch main'' \<rparr>"
    by (simp add: runGitCommand_def demo_folder_host_def quiet_run_def exec_error_def Let_def
        or_else_def trim_def str_def isWhiteSpace_def)
  from runGitCommand_log [of demo_folder_host "str ''/home/u/project''" "[]"
      "quiet_run\<lparr> stdout := str ''On branch main'' @ newline \<rparr>"
      "[str ''commit'', str ''-m'', str ''fix bug'']" 0] f p r
  have a: "fst (runGitCommand [str ''commit'', str ''-m'', str ''fix bug''] 0 demo_folder_host) =
     [AppendLine 0 (str ''> git commit -m '' @ dquote @ str ''fix bug'' @ dquote),
      AppendLine 0 (str ''  (in: /home/u/project)''),
      AppendLine 0 (str ''---''),
      ExecFile (str ''git'') [str ''commit'', str ''-m'', str ''fix bug'']
        (str ''/home/u/project''),
      AppendLine 0 (str ''On branch main''),
      Show 0,
      AppendLine 0 []]"
    by (simp add: str_def)
  from runGitCommand_log [of demo_no_folder_host "[]" "[]" quiet_run "[str ''status'']" 0] n
  have b: "fst (runGitCommand [str ''status''] 0 demo_no_folder_host) =
     [AppendLine 0 (str ''ERROR: '' @ errorMsg), Show 0, ShowErrorMessage errorMsg]"
    by simp
  from f p n a b show ?thesis by simp
qed

text \<open>
  Claim C6, as stated, fails. With no workspace folder open, a call for \<^verbatim>\<open>git status\<close>
  appends exactly one line, which is not empty: there is no command line, no working
  directory and no blank separator. And an argument that contains a TAB (white space,
  but not U+0020) is displayed without quotes.
\<close>

theorem log_block_counterexample:
  "appended_lines (fst (runGitCommand [str ''status''] 0 demo_no_folder_host)) =
     [str ''ERROR: No folder is open in VS Code. Please open a folder first (File > Open Folder).''] \<and>
   [] \<notin> set (appended_lines (fst (runGitCommand [str ''status''] 0 demo_no_folder_host))) \<and>
   isWhiteSpace 0x09 \<and>
   hd (appended_lines (fst (runGitCommand [str ''a'' @ [0x09] @ str ''b''] 0 demo_tab_host))) =
     str ''> git a'' @ [0x09] @ str ''b''"
  by (simp add: runGitCommand_def demo_no_folder_host_def demo_tab_host_def quiet_run_def
      errorMsg_def exec_error_def Let_def displayCmd_def includes_js_def isWhiteSpace_def
      str_def)

section \<open>The controller\<close>

text \<open>
  Claim C1. For a run-step message whose step declares \<open>requiresInput\<close>, when the input
  box returns a string that is not empty after trimming, the controller shows the input
  box, posts the running status, calls the runner with the step's \<open>args\<close> followed by
  that string, untouched, as one last element, and awaits the runner's result. The
  argument list is one longer than the step's \<open>args\<close> whatever the string contains, and
  with a workspace folder open \<^verbatim>\<open>execFile\<close> is called once with exactly that list.
\<close>

theorem input_appended:
  assumes "msg_type m = str ''runStep''"
    and "find (\<lambda>s. step_id s = stepId m) (steps w) = Some step"
    and "requiresInput step = Some req"
    and "inputBox h = Some userInput"
    and "trim userInput \<noteq> []"
  shows "fst (handleMessage m h w) =
           [ShowInputBox (prompt req) (placeholder req)] @
           sendStatusToWebview (step_id step) (str ''running'') w @
           fst (runGitCommand (arrays w ! args step @ [userInput]) (outputChannel w) h) @
           awaitResult (step_id step)
             (snd (runGitCommand (arrays w ! args step @ [userInput]) (outputChannel w) h)) w \<and>
         length (arrays w ! args step @ [userInput]) = length (arrays w ! args step) + 1 \<and>
         last (arrays w ! args step @ [userInput]) = userInput \<and>
         (\<forall>folder rest. workspaceFolders h = Some (folder # rest) \<longrightarrow>
            executions (fst (handleMessage m h w)) =
              [(arrays w ! args step @ [userInput], folder)])"
proof -
  have eq: "fst (handleMessage m h w) =
           [ShowInputBox (prompt req) (placeholder req)] @
           sendStatusToWebview (step_id step) (str ''running'') w @
           fst (runGitCommand (arrays w ! args step @ [userInput]) (outputChannel w) h) @
           awaitResult (step_id step)
             (snd (runGitCommand (arrays w ! args step @ [userInput]) (outputChannel w) h)) w"
    using assms
    by (simp add: handleMessage_def Let_def case_prod_beta sendStatusToWebview_def
        sendResultToWebview_def awaitResult_def split: option.split sum.split)
  have "\<forall>folder rest. workspaceFolders h = Some (folder # rest) \<longrightarrow>
          executions (fst (handleMessage m h w)) =
            [(arrays w ! args step @ [userInput], folder)]"
    unfolding eq
    by (simp add: executions_append executions_send executions_runGitCommand)
  with eq show ?thesis by simp
qed

theorem input_appended_witness:
  "msg_type runStep_commit = str ''runStep'' \<and>
   find (\<lambda>s. step_id s = stepId runStep_commit) (steps init_world) =
     Some (steps init_world ! 5) \<and>
   inputBox demo_injection_host = Some (str ''; rm -rf /'') \<and>
   trim (str ''; rm -rf /'') \<noteq> [] \<and>
   executions (fst (handleMessage runStep_commit demo_injection_host init_world)) =
     [([str ''commit'', str ''-m'', str ''; rm -rf /''], str ''/home/u/project'')] \<and>
   inputBox demo_folder_host = Some (str ''fix bug'') \<and>
   trim (str ''fix bug'') \<noteq> [] \<and>
   executions (fst (handleMessage runStep_commit demo_folder_host init_world)) =
     [([str ''commit'', str ''-m'', str ''fix bug''], str ''/home/u/project'')]"
proof -
  have m: "msg_type runStep_commit = str ''runStep''"
    by (simp add: runStep_commit_def)
  have f: "find (\<lambda>s. step_id s = stepId runStep_commit) (steps init_world) =
             Some (steps init_world ! 5)"
    by (simp add: runStep_commit_def find_commit)
  have r: "requiresInput (steps init_world ! 5) =
     Some \<lparr> prompt = str ''Enter your commit message'',
            placeholder = str ''e.g., Add initial project files'' \<rparr>"
    by (simp add: commit_step)
  have i1: "inputBox demo_injection_host = Some (str ''; rm -rf /'')"
    by (simp add: demo_injection_host_def)
  have t1: "trim (str ''; rm -rf /'') \<noteq> []"
    by (simp add: trim_def str_def isWhiteSpace_def)
  have i2: "inputBox demo_folder_host = Some (str ''fix bug'')"
    by (simp add: demo_folder_host_def)
  have t2: "trim (str ''fix bug'') \<noteq> []"
    by (simp add: trim_def str_def isWhiteSpace_def)
  have w1: "workspaceFolders demo_injection_host = Some [str ''/home/u/project'']"
    by (simp add: demo_injection_host_def)
  have w2: "workspaceFolders demo_folder_host = Some [str ''/home/u/project'']"
    by (simp add: demo_folder_host_def)
  from input_appended [OF m f r i1 t1, THEN conjunct2, THEN conjunct2, THEN conjunct2,
      rule_format, OF w1]
  have a: "executions (fst (handleMessage runStep_commit demo_injection_host init_world)) =
     [([str ''commit'', str ''-m'', str ''; rm -rf /''], str ''/home/u/project'')]"
    by (simp add: commit_step)
  from input_appended [OF m f r i2 t2, THEN conjunct2, THEN conjunct2, THEN conjunct2,
      rule_format, OF w2]
  have b: "executions (fst (handleMessage runStep_commit demo_folder_host init_world)) =
     [([str ''commit'', str ''-m'', str ''fix bug''], str ''/home/u/project'')]"
    by (simp add: commit_step)
  from m f i1 t1 a i2 t2 b show ?thesis by simp
qed

text \<open>
  Claim C5. In any state the extension can reach, for a run-step message (delivered by a
  webview that has a listener) whose step declares \<open>requiresInput\<close>: if the input box is
  cancelled, or returns a string that is empty after trimming, the whole trace is the
  input box and one result message with the step's id, \<open>success = False\<close> and the fixed
  cancellation text. So \<^verbatim>\<open>execFile\<close> is not called and nothing is appended to the
  output channel.
\<close>

theorem cancel_no_execution:
  assumes "w = snd (run_events es init_world)"
    and "src \<in> set (listeners w)"
    and "msg_type m = str ''runStep''"
    and "find (\<lambda>s. step_id s = stepId m) (steps w) = Some step"
    and "requiresInput step = Some req"
    and "inputBox h = None \<or> (\<exists>x. inputBox h = Some x \<and> trim x = [])"
  shows "\<exists>v. fst (dispatch (ReceiveMessage src m h) w) =
           [ShowInputBox (prompt req) (placeholder req),
            PostMessage v (ResultMessage (stepId m) False
              (str ''Cancelled '' @ dash @ str '' no input provided.''))] \<and>
         executions (fst (dispatch (ReceiveMessage src m h) w)) = [] \<and>
         appended_lines (fst (dispatch (ReceiveMessage src m h) w)) = []"
proof -
  obtain v where v: "view w = Some v"
    using reachable_view assms(1,2) by blast
  have i: "step_id step = stepId m"
    using assms(4) by (rule find_Some_id)
  have "fst (handleMessage m h w) =
          [ShowInputBox (prompt req) (placeholder req),
           PostMessage v (ResultMessage (stepId m) False
             (str ''Cancelled '' @ dash @ str '' no input provided.''))]"
    using assms(3-6) v i
    by (auto simp add: handleMessage_def Let_def sendResultToWebview_def cancelled_def)
  with assms(2) show ?thesis by simp
qed

theorem cancel_no_execution_witness:
  "demo_world = snd (run_events [ResolveWebviewView 7] init_world) \<and>
   7 \<in> set (listeners demo_world) \<and>
   msg_type runStep_commit = str ''runStep'' \<and>
   find (\<lambda>s. step_id s = stepId runStep_commit) (steps demo_world) =
     Some (steps init_world ! 5) \<and>
   inputBox demo_blank_host = Some (str ''   '') \<and> trim (str ''   '') = [] \<and>
   (\<exists>v. fst (dispatch (ReceiveMessage 7 runStep_commit demo_blank_host) demo_world) =
      [ShowInputBox (str ''Enter your commit message'')
         (str ''e.g., Add initial project files''),
       PostMessage v (ResultMessage (str ''commit'') False
         (str ''Cancelled '' @ dash @ str '' no input provided.''))] \<and>
      executions (fst (dispatch (ReceiveMessage 7 runStep_commit demo_blank_host) demo_world)) = [] \<and>
      appended_lines (fst (dispatch (ReceiveMessage 7 runStep_commit demo_blank_host) demo_world)) = [])"
proof -
  have w: "demo_world = snd (run_events [ResolveWebviewView 7] init_world)"
    by (rule demo_world_def)
  have l: "7 \<in> set (listeners demo_world)"
    by (simp add: demo_world_simps)
  have m: "msg_type runStep_commit = str ''runStep''"
    by (simp add: runStep_commit_def)
  have f: "find (\<lambda>s. step_id s = stepId runStep_commit) (steps demo_world) =
             Some (steps init_world ! 5)"
    by (simp add: runStep_commit_def find_commit demo_world_simps)
  have r: "requiresInput (steps init_world ! 5) =
     Some \<lparr> prompt = str ''Enter your commit message'',
            placeholder = str ''e.g., Add initial project files'' \<rparr>"
    by (simp add: commit_step)
  have i: "inputBox demo_blank_host = Some (str ''   '')"
    by (simp add: demo_blank_host_def)
  have t: "trim (str ''   '') = []"
    by (simp add: trim_def str_def isWhiteSpace_def)
  from i t have c:
    "inputBox demo_blank_host = None \<or> (\<exists>x. inputBox demo_blank_host = Some x \<and> trim x = [])"
    by simp
  from cancel_no_execution [OF w l m f r c] w l m f i t show ?thesis
    by (simp add: runStep_commit_def)
qed

text \<open>
  Claim C7. A run-step message whose step id is the id of no step of the catalog has no
  effect: the trace is empty (no input box, no process, no line in the output channel, no
  message to the webview) and the state is unchanged.
\<close>

theorem unknown_step_ignored:
  assumes "stepId m \<notin> set (map step_id (steps w))"
  shows "handleMessage m h w = ([], w) \<and> dispatch (ReceiveMessage src m h) w = ([], w)"
proof -
  from assms have "find (\<lambda>s. step_id s = stepId m) (steps w) = None"
    unfolding find_None_ids .
  then show ?thesis by (simp add: handleMessage_def)
qed

theorem unknown_step_ignored_witness:
  "stepId runStep_rebase \<notin> set (map step_id (steps init_world)) \<and>
   handleMessage runStep_rebase demo_folder_host init_world = ([], init_world) \<and>
   dispatch (ReceiveMessage 7 runStep_rebase demo_folder_host) init_world = ([], init_world)"
proof -
  have a: "stepId runStep_rebase \<notin> set (map step_id (steps init_world))"
    unfolding init_ids by (simp add: runStep_rebase_def str_eq_iff)
  from unknown_step_ignored [OF a, of demo_folder_host 7] a show ?thesis
    by simp
qed

text \<open>
  What the controller posts for a run-step message of a known step, in any state the
  extension can reach: one result; or the running status and then one result; or, when
  the runner's promise rejects, the running status alone. Each carries the step id of
  the message.
\<close>

lemma notifications_shape:
  assumes "w = snd (run_events es init_world)"
    and "src \<in> set (listeners w)"
    and "msg_type m = str ''runStep''"
    and "find (\<lambda>s. step_id s = stepId m) (steps w) = Some step"
  shows "\<exists>ok txt.
           posted (fst (dispatch (ReceiveMessage src m h) w)) =
             [ResultMessage (stepId m) ok txt] \<or>
           posted (fst (dispatch (ReceiveMessage src m h) w)) =
             [StatusMessage (stepId m) (str ''running''), ResultMessage (stepId m) ok txt] \<or>
           posted (fst (dispatch (ReceiveMessage src m h) w)) =
             [StatusMessage (stepId m) (str ''running'')]"
proof -
  obtain v where v: "view w = Some v"
    using reachable_view assms(1,2) by blast
  have i: "step_id step = stepId m"
    using assms(4) by (rule find_Some_id)
  have "\<exists>ok txt.
           posted (fst (handleMessage m h w)) = [ResultMessage (stepId m) ok txt] \<or>
           posted (fst (handleMessage m h w)) =
             [StatusMessage (stepId m) (str ''running''), ResultMessage (stepId m) ok txt] \<or>
           posted (fst (handleMessage m h w)) = [StatusMessage (stepId m) (str ''running'')]"
    using assms(3,4) v i
    by (simp add: handleMessage_def Let_def case_prod_beta sendResultToWebview_def
        sendStatusToWebview_def awaitResult_def posted_append posted_runGitCommand
        split: option.split sum.split)
  with assms(2) show ?thesis by simp
qed

text \<open>When \<^verbatim>\<open>execFile\<close> throws, the running status is all that is posted.\<close>

lemma handleMessage_rejects:
  assumes "msg_type m = str ''runStep''"
    and "find (\<lambda>s. step_id s = stepId m) (steps w) = Some step"
    and "requiresInput step = Some req"
    and "inputBox h = Some userInput"
    and "trim userInput \<noteq> []"
    and "workspaceFolders h = Some (folder # rest)"
    and "process h = Throws e"
    and "view w = Some v"
  shows "posted (fst (handleMessage m h w)) =
           [StatusMessage (stepId m) (str ''running'')] \<and>
         last (fst (handleMessage m h w)) = Uncaught e"
proof -
  have i: "step_id step = stepId m"
    using assms(2) by (rule find_Some_id)
  show ?thesis
    using assms i
    by (simp add: handleMessage_def Let_def case_prod_beta sendStatusToWebview_def
        awaitResult_def runGitCommand_def)
qed

text \<open>
  Claim C8 does not hold of the code. The user runs the commit step and enters a message
  that contains a NUL character. \<^verbatim>\<open>execFile\<close> throws, the runner's promise rejects,
  and \<^verbatim>\<open>_handleMessage\<close>, which has posted the running status, has no \<^verbatim>\<open>catch\<close>: the
  exception leaves it and no result message is ever posted.
\<close>

theorem running_without_result:
  "7 \<in> set (listeners demo_world) \<and>
   inputBox demo_nul_host = Some (str ''fix'' @ [0x00] @ str ''bug'') \<and>
   posted (fst (dispatch (ReceiveMessage 7 runStep_commit demo_nul_host) demo_world)) =
     [StatusMessage (str ''commit'') (str ''running'')] \<and>
   last (fst (dispatch (ReceiveMessage 7 runStep_commit demo_nul_host) demo_world)) =
     Uncaught (str ''ERR_INVALID_ARG_VALUE'')"
proof -
  have l: "7 \<in> set (listeners demo_world)"
    by (simp add: demo_world_simps)
  have m: "msg_type runStep_commit = str ''runStep''"
    by (simp add: runStep_commit_def)
  have f: "find (\<lambda>s. step_id s = stepId runStep_commit) (steps demo_world) =
             Some (steps init_world ! 5)"
    by (simp add: runStep_commit_def find_commit demo_world_simps)
  have r: "requiresInput (steps init_world ! 5) =
     Some \<lparr> prompt = str ''Enter your commit message'',
            placeholder = str ''e.g., Add initial project files'' \<rparr>"
    by (simp add: commit_step)
  have i: "inputBox demo_nul_host = Some (str ''fix'' @ [0x00] @ str ''bug'')"
    by (simp add: demo_nul_host_def)
  have t: "trim (str ''fix'' @ [0x00] @ str ''bug'') \<noteq> []"
    by (simp add: trim_def str_def isWhiteSpace_def)
  have d: "workspaceFolders demo_nul_host = Some [str ''/home/u/project'']"
    by (simp add: demo_nul_host_def)
  have p: "process demo_nul_host = Throws (str ''ERR_INVALID_ARG_VALUE'')"
    by (simp add: demo_nul_host_def)
  have v: "view demo_world = Some 7"
    by (simp add: demo_world_simps)
  from handleMessage_rejects [OF m f r i t d p v] l i show ?thesis
    by (simp add: runStep_commit_def)
qed

text \<open>
  Claim C9. After any sequence of events from the initial state (views resolved,
  messages handled, with any inputs), the catalog is the one loaded at start, field by
  field, and the array each step's \<open>args\<close> refers to still holds the literal of steps.ts:
  the user's input was pushed onto a copy.
\<close>

theorem catalog_never_mutated:
  "steps (snd (run_events es init_world)) = steps init_world \<and>
   map (\<lambda>s. arrays (snd (run_events es init_world)) ! args s)
     (steps (snd (run_events es init_world))) =
     map args WALKTHROUGH_STEPS"
proof -
  obtain ext where e: "arrays (snd (run_events es init_world)) = arrays init_world @ ext"
    using run_events_arrays by blast
  have "map (\<lambda>s. (arrays init_world @ ext) ! args s) (steps init_world) =
        map (\<lambda>s. arrays init_world ! args s) (steps init_world)"
    using init_wf by (simp add: nth_append)
  with e show ?thesis by (simp add: run_events_steps init_deref)
qed

theorem catalog_never_mutated_witness:
  "steps (snd (run_events
      [ResolveWebviewView 7, ReceiveMessage 7 runStep_commit demo_folder_host] init_world)) =
     steps init_world \<and>
   map (\<lambda>s. arrays (snd (run_events
          [ResolveWebviewView 7, ReceiveMessage 7 runStep_commit demo_folder_host]
          init_world)) ! args s)
     (steps (snd (run_events
        [ResolveWebviewView 7, ReceiveMessage 7 runStep_commit demo_folder_host] init_world))) =
     map args WALKTHROUGH_STEPS"
  by (rule catalog_never_mutated)

text \<open>
  Claim C10. A message whose type is not \<^verbatim>\<open>runStep\<close> has no effect, whatever step id
  it carries: the trace is empty and the state is unchanged.
\<close>

theorem other_message_ignored:
  assumes "msg_type m \<noteq> str ''runStep''"
  shows "handleMessage m h w = ([], w) \<and> dispatch (ReceiveMessage src m h) w = ([], w)"
  using assms by (simp add: handleMessage_def)

theorem other_message_ignored_witness:
  "msg_type refresh_commit \<noteq> str ''runStep'' \<and>
   handleMessage refresh_commit demo_folder_host init_world = ([], init_world) \<and>
   dispatch (ReceiveMessage 7 refresh_commit demo_folder_host) init_world = ([], init_world)"
proof -
  have a: "msg_type refresh_commit \<noteq> str ''runStep''"
    by (simp add: refresh_commit_def str_eq_iff)
  from other_message_ignored [OF a, of demo_folder_host init_world 7] a show ?thesis
    by simp
qed

end
